theory Spec2Isabelle
  imports Complex_Main
begin

section \<open>MulticastLibrary: a shallow embedding of the keyword library\<close>

text \<open>
  The library is one Python class, \<^verbatim>\<open>MulticastLibrary\<close>, whose methods are
  Robot Framework keywords.  Each keyword below is translated from
  \<^verbatim>\<open>src/src/MulticastLibrary/MulticastLibrary.py\<close> and keeps its name.

  Conventions of the embedding:
  \<^item> a Python \<^verbatim>\<open>bytes\<close> value is a list of 8-bit characters;
  \<^item> a Python \<^verbatim>\<open>str\<close> is represented by its UTF-8 encoding, so
    \<^verbatim>\<open>str.encode()\<close> is the identity and \<^verbatim>\<open>bytes.decode()\<close> is the check
    that the bytes are well-formed UTF-8 (strings with lone surrogates, the
    only ones \<^verbatim>\<open>encode\<close> rejects, have no representation);
  \<^item> a raised exception is the left summand of the result;
  \<^item> a Python float (seconds) is a real number, an infinity or NaN, and the
    arithmetic on finite floats is that of the real numbers;
  \<^item> whatever the operating system, the network, the clock or a third-party
    package decides is a parameter of the keyword.
\<close>

type_synonym bytes = "char list"
type_synonym str = "char list"

subsection \<open>Exceptions\<close>

datatype exn =
    AssertionError str
  | FileNotFoundError str
  | NameError str
  | ValueError str
  | TypeError
  | OSError str
  | socket_timeout
  | UnicodeDecodeError
  | struct_error str
  | OverflowError str
  | OtherError str

text \<open>
  \<^verbatim>\<open>except OSError\<close> also catches the subclasses of \<^verbatim>\<open>OSError\<close>;
  \<^verbatim>\<open>FileNotFoundError\<close> and \<^verbatim>\<open>socket.timeout\<close> are such subclasses.
\<close>

fun is_OSError :: "exn \<Rightarrow> bool" where
  "is_OSError (OSError _) = True"
| "is_OSError (FileNotFoundError _) = True"
| "is_OSError socket_timeout = True"
| "is_OSError _ = False"

fun is_TypeError :: "exn \<Rightarrow> bool" where
  "is_TypeError TypeError = True"
| "is_TypeError _ = False"

text \<open>The apostrophe of the f-strings.\<close>

definition apostrophe :: char where
  "apostrophe = CHR 0x27"

subsection \<open>Should Messages Be Equal, Should Messages Not Be Equal\<close>

text \<open>
  \<^verbatim>\<open>
  def Should_Messages_Be_Equal(sent_msg: str, recv_msg: list):
      if sent_msg not in recv_msg:
          raise AssertionError(f"'{sent_msg}' is not found in the received message")

  def Should_Messages_Not_Be_Equal(sent_msg: str, recv_msg: list):
      if sent_msg in recv_msg:
          raise AssertionError(f"'{sent_msg}' is found in the received message")
  \<close>
  Both return \<^verbatim>\<open>None\<close>, the unit value, when they do not raise.
\<close>

definition Should_Messages_Be_Equal :: "str \<Rightarrow> str list \<Rightarrow> exn + unit" where
  "Should_Messages_Be_Equal sent_msg recv_msg =
     (if sent_msg \<notin> set recv_msg
      then Inl (AssertionError
             ([apostrophe] @ sent_msg @ [apostrophe] @ '' is not found in the received message''))
      else Inr ())"

definition Should_Messages_Not_Be_Equal :: "str \<Rightarrow> str list \<Rightarrow> exn + unit" where
  "Should_Messages_Not_Be_Equal sent_msg recv_msg =
     (if sent_msg \<in> set recv_msg
      then Inl (AssertionError
             ([apostrophe] @ sent_msg @ [apostrophe] @ '' is found in the received message''))
      else Inr ())"

subsection \<open>Get Frame Counts\<close>

text \<open>
  \<^verbatim>\<open>
  def Get_Frame_count(self, video_file: str) -> int:
      if (os.path.exists(video_file)):
          frame_count = 0
          video_obj = cv2.VideoCapture(video_file)
          while True:
              ret, frame = video_obj.read()
              if not ret:
                  break
              frame_count += 1
          video_obj.release()
          return frame_count
      else:
          raise FileNotFoundError(f"{file} file does not exist!")
  \<close>
  The file system answers \<^verbatim>\<open>os.path.exists\<close>, and \<^verbatim>\<open>cv2.VideoCapture\<close>
  yields the frames that can be decoded from a path, in order (none when the
  file is not a video).
\<close>

record 'frame files =
  os_path_exists :: "str \<Rightarrow> bool"
  cv2_VideoCapture :: "str \<Rightarrow> 'frame list"

text \<open>
  The loop: \<^verbatim>\<open>video_obj.read()\<close> hands out the next frame with \<^verbatim>\<open>ret = True\<close>,
  and \<^verbatim>\<open>ret = False\<close> once the stream is exhausted.
\<close>

fun count_loop :: "'frame list \<Rightarrow> int \<Rightarrow> int" where
  "count_loop [] frame_count = frame_count"
| "count_loop (frame # video_obj) frame_count = count_loop video_obj (frame_count + 1)"

text \<open>
  Reading a name.  Python looks a name up in the local scope, then in the
  module's globals, then in the builtins, and raises \<^verbatim>\<open>NameError\<close> when none
  binds it.  A scope is given here by the names it binds, each with the text
  an f-string prints for it.
\<close>

definition load_name :: "(str \<times> str) list \<Rightarrow> str \<Rightarrow> exn + str" where
  "load_name scope name =
     (case map_of scope name of
        Some v \<Rightarrow> Inr v
      | None \<Rightarrow> Inl (NameError
          (''name '' @ [apostrophe] @ name @ [apostrophe] @ '' is not defined'')))"

text \<open>
  In the \<^verbatim>\<open>else\<close> branch the f-string reads the name \<^verbatim>\<open>file\<close>.  The names
  bound there are the parameters \<^verbatim>\<open>self\<close> and \<^verbatim>\<open>video_file\<close>, the module's
  imports (\<^verbatim>\<open>ffmpeg\<close>, \<^verbatim>\<open>ping3\<close>, \<^verbatim>\<open>vlc\<close>, \<^verbatim>\<open>os\<close>, \<^verbatim>\<open>cv2\<close>, \<^verbatim>\<open>socket\<close>,
  \<^verbatim>\<open>numpy\<close>, \<^verbatim>\<open>struct\<close>, \<^verbatim>\<open>threading\<close>, \<^verbatim>\<open>time\<close>, \<^verbatim>\<open>Path\<close>, \<^verbatim>\<open>keyword\<close>), the
  class \<^verbatim>\<open>MulticastLibrary\<close> and the builtins of Python 3, which have no
  \<^verbatim>\<open>file\<close>.  Only \<^verbatim>\<open>video_file\<close> is a string; the scope lists it.
\<close>

definition Get_Frame_count :: "'frame files \<Rightarrow> str \<Rightarrow> exn + int" where
  "Get_Frame_count fs video_file =
     (if os_path_exists fs video_file
      then Inr (count_loop (cv2_VideoCapture fs video_file) 0)
      else (case load_name [(''video_file'', video_file)] ''file'' of
              Inl e \<Rightarrow> Inl e
            | Inr file \<Rightarrow> Inl (FileNotFoundError (file @ '' file does not exist!''))))"

subsection \<open>Ping\<close>

text \<open>
  \<^verbatim>\<open>
  def ping(self, remote_host: str = '127.0.0.1') -> bool:
      if remote_host.count(".") == 3:
          try:
              if ping3.ping(remote_host, timeout=1):
                  return True
              else:
                  return False
          except (TypeError, OSError) as e:
              return False
          except NameError as e:
              return (f"module {e}")
      else:
          return False
  \<close>
  \<^verbatim>\<open>ping3.ping\<close> is a third-party function: it returns the round-trip delay
  (a float), \<^verbatim>\<open>None\<close> or \<^verbatim>\<open>False\<close>, or raises.  It is a parameter of the
  keyword, taking the host and the timeout.
\<close>

datatype probe_value = Delay real | PyNone | PyFalse

datatype probe_outcome = Returns probe_value | Raises exn

text \<open>Python's truth value: a float is true unless it is zero.\<close>

fun truthy :: "probe_value \<Rightarrow> bool" where
  "truthy (Delay d) = (d \<noteq> 0)"
| "truthy PyNone = False"
| "truthy PyFalse = False"

text \<open>What the keyword hands back: a \<^verbatim>\<open>bool\<close> or, in one branch, a \<^verbatim>\<open>str\<close>.\<close>

datatype ping_return = Bool bool | Str str

definition ping :: "(str \<Rightarrow> real \<Rightarrow> probe_outcome) \<Rightarrow> str \<Rightarrow> exn + ping_return" where
  "ping ping3_ping remote_host =
     (if count_list remote_host CHR ''.'' = 3
      then (case ping3_ping remote_host 1 of
              Returns v \<Rightarrow> (if truthy v then Inr (Bool True) else Inr (Bool False))
            | Raises e \<Rightarrow>
                (if is_TypeError e \<or> is_OSError e then Inr (Bool False)
                 else (case e of
                         NameError msg \<Rightarrow> Inr (Str (''module '' @ msg))
                       | _ \<Rightarrow> Inl e)))
      else Inr (Bool False))"

subsection \<open>Create Send Socket\<close>

text \<open>
  \<^verbatim>\<open>
  def Create_Send_Socket(ttl: int = 5) -> socket.socket:
      send_sock = socket.socket(socket.AF_INET, socket.SOCK_DGRAM, socket.IPPROTO_UDP)
      ttl_bytes = struct.pack('b', ttl)
      send_sock.setsockopt(socket.IPPROTO_IP, socket.IP_MULTICAST_TTL, ttl_bytes)
      return send_sock
  \<close>
  A socket object is the options set on it and its timeout (\<^verbatim>\<open>None\<close>, blocking,
  when created).  The library has no keyword that closes a socket: a socket
  here is an open one.  The operating system decides whether a socket can be
  made and whether it takes an option value; both decisions are parameters.
\<close>

datatype sockopt = IP_MULTICAST_TTL | SO_REUSEADDR | IP_ADD_MEMBERSHIP

record socket =
  sockopts :: "sockopt \<Rightarrow> bytes option"
  timeout :: "real option"

record kernel =
  socket_raises :: "exn option"
  setsockopt_raises :: "sockopt \<Rightarrow> bytes \<Rightarrow> exn option"

definition socket_socket :: "kernel \<Rightarrow> exn + socket" where
  "socket_socket k =
     (case socket_raises k of
        Some e \<Rightarrow> Inl e
      | None \<Rightarrow> Inr \<lparr>sockopts = (\<lambda>_. None), timeout = None\<rparr>)"

text \<open>
  \<^verbatim>\<open>struct.pack('b', v)\<close>: format \<^verbatim>\<open>b\<close> is a signed char.  The value is
  first read as a C \<^verbatim>\<open>long\<close> (64 bits on Linux); one that does not fit
  raises \<^verbatim>\<open>struct.error\<close> with the text \<^verbatim>\<open>argument out of range\<close>.  A value
  outside \<open>-128..127\<close> raises \<^verbatim>\<open>struct.error\<close> too; a value inside is its one
  byte in two's complement.
\<close>

definition struct_pack_b :: "int \<Rightarrow> exn + bytes" where
  "struct_pack_b v =
     (if v < - (2 ^ 63) \<or> 2 ^ 63 \<le> v then Inl (struct_error ''argument out of range'')
      else if -128 \<le> v \<and> v \<le> 127 then Inr [char_of (v mod 256)]
      else Inl (struct_error ''byte format requires -128 <= number <= 127''))"

definition setsockopt :: "kernel \<Rightarrow> socket \<Rightarrow> sockopt \<Rightarrow> bytes \<Rightarrow> exn + socket" where
  "setsockopt k sock opt val =
     (case setsockopt_raises k opt val of
        Some e \<Rightarrow> Inl e
      | None \<Rightarrow> Inr (sock\<lparr>sockopts := (sockopts sock)(opt \<mapsto> val)\<rparr>))"

definition Create_Send_Socket :: "kernel \<Rightarrow> int \<Rightarrow> exn + socket" where
  "Create_Send_Socket k ttl =
     (case socket_socket k of
        Inl e \<Rightarrow> Inl e
      | Inr send_sock \<Rightarrow>
          (case struct_pack_b ttl of
             Inl e \<Rightarrow> Inl e
           | Inr ttl_bytes \<Rightarrow> setsockopt k send_sock IP_MULTICAST_TTL ttl_bytes))"

subsection \<open>Text and bytes\<close>

text \<open>
  \<^verbatim>\<open>bytes.decode()\<close> is the strict UTF-8 decoder: it raises
  \<^verbatim>\<open>UnicodeDecodeError\<close> unless the bytes are well-formed UTF-8 (no stray or
  missing continuation byte, no overlong form, no surrogate, nothing above
  U+10FFFF).  \<open>utf8_valid\<close> reads the byte values.
\<close>

definition in_range :: "nat \<Rightarrow> nat \<Rightarrow> nat \<Rightarrow> bool" where
  "in_range lo hi b = (lo \<le> b \<and> b < hi)"

definition cont :: "nat \<Rightarrow> bool" where
  "cont b = in_range 128 192 b"

fun utf8_valid :: "nat list \<Rightarrow> bool" where
  "utf8_valid [] = True"
| "utf8_valid (b0 # bs) =
     (if b0 < 128 then utf8_valid bs
      else if in_range 194 224 b0 then
        (case bs of
           b1 # rest \<Rightarrow> cont b1 \<and> utf8_valid rest
         | _ \<Rightarrow> False)
      else if in_range 224 240 b0 then
        (case bs of
           b1 # b2 # rest \<Rightarrow>
             in_range (if b0 = 224 then 160 else 128) (if b0 = 237 then 160 else 192) b1
             \<and> cont b2 \<and> utf8_valid rest
         | _ \<Rightarrow> False)
      else if in_range 240 245 b0 then
        (case bs of
           b1 # b2 # b3 # rest \<Rightarrow>
             in_range (if b0 = 240 then 144 else 128) (if b0 = 244 then 144 else 192) b1
             \<and> cont b2 \<and> cont b3 \<and> utf8_valid rest
         | _ \<Rightarrow> False)
      else False)"

definition encode :: "str \<Rightarrow> bytes" where
  "encode message = message"

definition decode :: "bytes \<Rightarrow> exn + str" where
  "decode data =
     (if utf8_valid (map of_char data) then Inr data else Inl UnicodeDecodeError)"

subsection \<open>Floats as lengths of time\<close>

datatype pyfloat = Finite real | PosInf | NegInf | NaN

text \<open>
  \<^verbatim>\<open>x > y\<close> for a finite \<open>x\<close>: every comparison with NaN is false.
\<close>

fun float_gt :: "real \<Rightarrow> pyfloat \<Rightarrow> bool" where
  "float_gt x (Finite y) = (y < x)"
| "float_gt x PosInf = False"
| "float_gt x NegInf = True"
| "float_gt x NaN = False"

text \<open>
  \<^verbatim>\<open>time.sleep\<close> and \<^verbatim>\<open>socket.settimeout\<close> first turn their argument into a
  signed 64-bit count of nanoseconds, rounded away from zero
  (\<^verbatim>\<open>_PyTime_FromSecondsObject\<close> with \<^verbatim>\<open>_PyTime_ROUND_TIMEOUT\<close>).  NaN raises
  \<^verbatim>\<open>ValueError\<close>; an infinity or a count that does not fit (about 9.22e9
  seconds and more) raises \<^verbatim>\<open>OverflowError\<close>.  Only then is the sign looked
  at.  The conversion hands on the seconds it accepted.
\<close>

definition round_timeout :: "real \<Rightarrow> int" where
  "round_timeout x = (if 0 \<le> x then \<lceil>x\<rceil> else \<lfloor>x\<rfloor>)"

definition fits_PyTime :: "real \<Rightarrow> bool" where
  "fits_PyTime secs =
     (- (2 ^ 63) \<le> round_timeout (secs * 10 ^ 9) \<and> round_timeout (secs * 10 ^ 9) < 2 ^ 63)"

fun PyTime_FromSecondsObject :: "pyfloat \<Rightarrow> exn + real" where
  "PyTime_FromSecondsObject NaN = Inl (ValueError ''Invalid value NaN (not a number)'')"
| "PyTime_FromSecondsObject PosInf =
     Inl (OverflowError ''timestamp too large to convert to C _PyTime_t'')"
| "PyTime_FromSecondsObject NegInf =
     Inl (OverflowError ''timestamp too large to convert to C _PyTime_t'')"
| "PyTime_FromSecondsObject (Finite secs) =
     (if fits_PyTime secs then Inr secs
      else Inl (OverflowError ''timestamp too large to convert to C _PyTime_t''))"

subsection \<open>Send Multicast Message\<close>

text \<open>
  \<^verbatim>\<open>
  stop_sending = threading.Event()

  def Send_Multicast_Message(send_sock, multicast_group, port, message,
                             interval: float = 1, duration: float = 5):
      def send_loop():
          start_time = time.time()
          while not MulticastLibrary.stop_sending.is_set():
              if time.time() - start_time > duration:
                  break
              encoded_message = message.encode()
              send_sock.sendto(encoded_message, (multicast_group, port))
              time.sleep(interval)

      sender_thread = threading.Thread(target=send_loop, daemon=True)
      sender_thread.start()
      sender_thread.join()
  \<close>
  The world the loop acts on is the clock that \<^verbatim>\<open>time.time()\<close> reads and the
  datagrams handed to the network so far, oldest first.
\<close>

type_synonym datagram = "bytes \<times> str \<times> int"

record world =
  clock :: real
  wire :: "datagram list"

text \<open>
  What the loop cannot decide is its environment, indexed by the pass through
  the loop (from 0):
  \<^item> \<open>is_set env n\<close>: what \<^verbatim>\<open>stop_sending.is_set()\<close> answers at the \<open>n\<close>-th test of
    the \<^verbatim>\<open>while\<close> condition (another thread sets the event with the keyword
    Stop Sending);
  \<^item> \<open>sendto_raises env n\<close>: the exception that the operating system or the
    name resolution makes the \<open>n\<close>-th \<^verbatim>\<open>sendto\<close> raise, if any (a closed
    socket, a group that does not resolve, a datagram that is too long);
  \<^item> \<open>oversleep env n\<close>: the seconds by which the \<open>n\<close>-th pass outlasts the
    requested \<^verbatim>\<open>interval\<close>.  Python documents that \<^verbatim>\<open>time.sleep\<close> may suspend
    the thread longer than requested by an arbitrary amount; the time of the
    other statements of the pass is charged here too.
\<close>

record sender_env =
  is_set :: "nat \<Rightarrow> bool"
  sendto_raises :: "nat \<Rightarrow> exn option"
  oversleep :: "nat \<Rightarrow> real"

definition time_time :: "world \<Rightarrow> real" where
  "time_time w = clock w"

text \<open>
  \<^verbatim>\<open>sendto\<close> resolves the host of the address, then raises \<^verbatim>\<open>OverflowError\<close>
  for a port outside \<open>0..65535\<close>, then hands the datagram to the system.
\<close>

definition sendto ::
  "sender_env \<Rightarrow> nat \<Rightarrow> socket \<Rightarrow> bytes \<Rightarrow> str \<times> int \<Rightarrow> world \<Rightarrow> exn + world" where
  "sendto env n send_sock data address w =
     (case sendto_raises env n of
        Some e \<Rightarrow> Inl e
      | None \<Rightarrow>
          (if snd address < 0 \<or> 65535 < snd address
           then Inl (OverflowError ''sendto(): port must be 0-65535.'')
           else Inr (w\<lparr>wire := wire w @ [(data, fst address, snd address)]\<rparr>)))"

text \<open>
  \<^verbatim>\<open>time.sleep\<close> converts its argument, then raises \<^verbatim>\<open>ValueError\<close> for a
  negative length, then sleeps.
\<close>

definition time_sleep :: "sender_env \<Rightarrow> nat \<Rightarrow> pyfloat \<Rightarrow> world \<Rightarrow> exn + world" where
  "time_sleep env n secs w =
     (case PyTime_FromSecondsObject secs of
        Inl e \<Rightarrow> Inl e
      | Inr t \<Rightarrow>
          (if t < 0 then Inl (ValueError ''sleep length must be non-negative'')
           else Inr (w\<lparr>clock := clock w + t + oversleep env n\<rparr>)))"

text \<open>
  The loop of the worker thread, from its \<open>n\<close>-th pass on.  An exception that
  escapes the loop ends the thread; nothing of it reaches the caller, so the
  loop's value is the world it leaves.  A loop that never ends has the value
  \<open>None\<close>.
\<close>

partial_function (option) send_loop ::
  "sender_env \<Rightarrow> socket \<Rightarrow> str \<Rightarrow> int \<Rightarrow> str \<Rightarrow> pyfloat \<Rightarrow> pyfloat \<Rightarrow> real \<Rightarrow> nat \<Rightarrow> world
     \<Rightarrow> world option" where
  "send_loop env send_sock multicast_group port message interval duration start_time n w =
     (if is_set env n then Some w
      else if float_gt (time_time w - start_time) duration then Some w
      else (case sendto env n send_sock (encode message) (multicast_group, port) w of
              Inl e \<Rightarrow> Some w
            | Inr w1 \<Rightarrow>
                (case time_sleep env n interval w1 of
                   Inl e \<Rightarrow> Some w1
                 | Inr w2 \<Rightarrow>
                     send_loop env send_sock multicast_group port message interval
                       duration start_time (Suc n) w2)))"

text \<open>
  The keyword starts the thread and joins it: it returns when the loop ends,
  with \<^verbatim>\<open>start_time\<close> read from the clock as the loop begins.
\<close>

definition Send_Multicast_Message ::
  "sender_env \<Rightarrow> socket \<Rightarrow> str \<Rightarrow> int \<Rightarrow> str \<Rightarrow> pyfloat \<Rightarrow> pyfloat \<Rightarrow> world
     \<Rightarrow> world option" where
  "Send_Multicast_Message env send_sock multicast_group port message interval duration w =
     send_loop env send_sock multicast_group port message interval duration (time_time w) 0 w"


text \<open>Two environments: a punctual one, and one whose every pass is two seconds late.\<close>

definition punctual :: sender_env where
  "punctual = \<lparr>is_set = (\<lambda>_. False), sendto_raises = (\<lambda>_. None), oversleep = (\<lambda>_. 0)\<rparr>"


text \<open>
  An environment in which the event reads as set from the \<open>k\<close>-th test on;
  with \<open>k = 0\<close>, Stop Sending was called before the keyword.
\<close>

definition stopped_from :: "nat \<Rightarrow> sender_env" where
  "stopped_from k =
     \<lparr>is_set = (\<lambda>n. k \<le> n), sendto_raises = (\<lambda>_. None), oversleep = (\<lambda>_. 0)\<rparr>"

subsection \<open>Receive Multicast Message\<close>

text \<open>
  \<^verbatim>\<open>
  def Receive_Multicast_Message(recv_sock: socket.socket, timeout: float = 5) -> list:
      recv_sock.settimeout(timeout)
      received_messages = []

      try:
          while True:
              data, _ = recv_sock.recvfrom(1024)
              received_messages.append(data.decode())
      except socket.timeout:
          pass

      return received_messages
  \<close>
  The network decides what the \<open>n\<close>-th call of \<^verbatim>\<open>recvfrom\<close> meets (from 0):
  a datagram with its payload as it was sent, or an exception
  (\<^verbatim>\<open>socket.timeout\<close> when nothing arrived in time).
\<close>

datatype arrival = Datagram bytes | Raised exn

text \<open>
  \<^verbatim>\<open>settimeout\<close> converts its argument, then raises \<^verbatim>\<open>ValueError\<close> for a
  negative number of seconds, then sets the timeout.
\<close>

definition settimeout :: "socket \<Rightarrow> pyfloat \<Rightarrow> exn + socket" where
  "settimeout sock secs =
     (case PyTime_FromSecondsObject secs of
        Inl e \<Rightarrow> Inl e
      | Inr t \<Rightarrow>
          (if t < 0 then Inl (ValueError ''Timeout value out of range'')
           else Inr (sock\<lparr>timeout := Some t\<rparr>)))"

text \<open>
  \<^verbatim>\<open>recvfrom(bufsize)\<close> on a datagram socket returns the first \<open>bufsize\<close> bytes
  of the datagram and discards the rest (Linux, the platform that
  \<^verbatim>\<open>setup.py\<close> names).
\<close>

definition recvfrom :: "(nat \<Rightarrow> arrival) \<Rightarrow> nat \<Rightarrow> nat \<Rightarrow> exn + bytes" where
  "recvfrom net n bufsize =
     (case net n of
        Datagram payload \<Rightarrow> Inr (take bufsize payload)
      | Raised e \<Rightarrow> Inl e)"

text \<open>
  The loop inside \<^verbatim>\<open>try\<close>, from the \<open>n\<close>-th receive on, together with the
  handler: \<^verbatim>\<open>socket.timeout\<close> ends it with the list, any other exception
  leaves the keyword.  While datagrams keep arriving the loop does not end
  (the value \<open>None\<close>).
\<close>

partial_function (option) recv_loop ::
  "(nat \<Rightarrow> arrival) \<Rightarrow> nat \<Rightarrow> str list \<Rightarrow> (exn + str list) option" where
  "recv_loop net n received_messages =
     (case recvfrom net n 1024 of
        Inl e \<Rightarrow>
          (if e = socket_timeout then Some (Inr received_messages) else Some (Inl e))
      | Inr data \<Rightarrow>
          (case decode data of
             Inl e \<Rightarrow> Some (Inl e)
           | Inr text \<Rightarrow> recv_loop net (Suc n) (received_messages @ [text])))"

text \<open>
  The keyword returns the socket as it leaves it and either the list or the
  exception that escaped.
\<close>

definition Receive_Multicast_Message ::
  "(nat \<Rightarrow> arrival) \<Rightarrow> socket \<Rightarrow> pyfloat \<Rightarrow> (socket \<times> (exn + str list)) option" where
  "Receive_Multicast_Message net recv_sock secs =
     (case settimeout recv_sock secs of
        Inl e \<Rightarrow> Some (recv_sock, Inl e)
      | Inr sock \<Rightarrow> map_option (Pair sock) (recv_loop net 0 []))"

text \<open>
  A network delivering the datagrams \<open>ds\<close> one after the other and then
  meeting the exception \<open>e\<close> at every later receive.
\<close>

definition delivering :: "bytes list \<Rightarrow> exn \<Rightarrow> nat \<Rightarrow> arrival" where
  "delivering ds e n = (if n < length ds then Datagram (ds ! n) else Raised e)"

subsection \<open>Concrete environments for the examples\<close>

text \<open>A socket as \<^verbatim>\<open>socket.socket\<close> makes it, and a kernel that refuses nothing.\<close>

definition fresh_socket :: socket where
  "fresh_socket = \<lparr>sockopts = (\<lambda>_. None), timeout = None\<rparr>"

definition willing :: kernel where
  "willing = \<lparr>socket_raises = None, setsockopt_raises = (\<lambda>_ _. None)\<rparr>"

text \<open>A file system without files.\<close>

definition no_files :: "nat files" where
  "no_files = \<lparr>os_path_exists = (\<lambda>_. False), cv2_VideoCapture = (\<lambda>_. [])\<rparr>"

text \<open>
  Three probes: one whose host answers after 10 ms; one that raises an
  exception of a class the keyword does not name (\<^verbatim>\<open>socket.gethostbyname\<close>
  raises \<^verbatim>\<open>UnicodeError\<close>, a \<^verbatim>\<open>ValueError\<close>, for a host name with an empty
  label); one that raises \<^verbatim>\<open>NameError\<close>.
\<close>

definition replying :: "str \<Rightarrow> real \<Rightarrow> probe_outcome" where
  "replying host secs = Returns (Delay (1 / 100))"

definition idna_probe :: "str \<Rightarrow> real \<Rightarrow> probe_outcome" where
  "idna_probe host secs = Raises (OtherError ''UnicodeError'')"

definition unbound_probe :: "str \<Rightarrow> real \<Rightarrow> probe_outcome" where
  "unbound_probe host secs = Raises (NameError ''name is not defined'')"

text \<open>The world before the first datagram, and the default group.\<close>

definition dawn :: world where
  "dawn = \<lparr>clock = 0, wire = []\<rparr>"

definition default_group :: str where
  "default_group = ''239.239.239.239''"

text \<open>A datagram of 1025 bytes whose 1024th and 1025th byte encode U+00E9.\<close>

definition long_payload :: bytes where
  "long_payload = replicate 1023 (CHR ''a'') @ [CHR 0xC3, CHR 0xA9]"

section \<open>Theorems\<close>

subsection \<open>The assertion helpers\<close>

text \<open>
  C6.  For every string \<open>sent_msg\<close> and list \<open>recv_msg\<close>,
  \<open>Should_Messages_Be_Equal\<close> returns normally if and only if \<open>sent_msg\<close> is a
  member of \<open>recv_msg\<close>; otherwise it raises an \<open>AssertionError\<close> whose message
  contains the missing payload \<open>sent_msg\<close> itself (between two apostrophes).
\<close>

theorem Should_Messages_Be_Equal_iff_member:
  "(Should_Messages_Be_Equal sent_msg recv_msg = Inr () \<longleftrightarrow> sent_msg \<in> set recv_msg) \<and>
   (sent_msg \<notin> set recv_msg \<longrightarrow>
      (\<exists>before after.
         Should_Messages_Be_Equal sent_msg recv_msg
           = Inl (AssertionError (before @ sent_msg @ after))))"
proof (intro conjI impI)
  show "Should_Messages_Be_Equal sent_msg recv_msg = Inr () \<longleftrightarrow> sent_msg \<in> set recv_msg"
    by (simp add: Should_Messages_Be_Equal_def)
next
  assume absent: "sent_msg \<notin> set recv_msg"
  let ?after = "[apostrophe] @ '' is not found in the received message''"
  from absent have "Should_Messages_Be_Equal sent_msg recv_msg
      = Inl (AssertionError ([apostrophe] @ sent_msg @ ?after))"
    by (simp add: Should_Messages_Be_Equal_def)
  then show "\<exists>before after. Should_Messages_Be_Equal sent_msg recv_msg
      = Inl (AssertionError (before @ sent_msg @ after))"
    by blast
qed

theorem Should_Messages_Be_Equal_iff_member_witness:
  "Should_Messages_Be_Equal ''ping'' [''ping'', ''pong''] = Inr () \<and>
   Should_Messages_Be_Equal ''missing'' [''ping'']
     = Inl (AssertionError
         ([apostrophe] @ ''missing'' @ [apostrophe] @ '' is not found in the received message''))"
proof -
  have a: "''ping'' \<in> set [''ping'', ''pong'']" by simp
  have b: "''missing'' \<notin> set [''ping'']" by simp
  from a Should_Messages_Be_Equal_iff_member [of "''ping''" "[''ping'', ''pong'']"]
  have "Should_Messages_Be_Equal ''ping'' [''ping'', ''pong''] = Inr ()" by blast
  moreover from b have "Should_Messages_Be_Equal ''missing'' [''ping'']
     = Inl (AssertionError
         ([apostrophe] @ ''missing'' @ [apostrophe] @ '' is not found in the received message''))"
    by (simp add: Should_Messages_Be_Equal_def)
  ultimately show ?thesis by simp
qed

text \<open>
  C7.  \<open>Should_Messages_Not_Be_Equal\<close> is the negation of
  \<open>Should_Messages_Be_Equal\<close>: it returns normally if and only if \<open>sent_msg\<close> is
  absent from \<open>recv_msg\<close>, and it raises an \<open>AssertionError\<close> exactly when
  \<open>Should_Messages_Be_Equal\<close> returns normally (and the other way round).  Both
  are functions of their two arguments alone: no state goes in or out.
\<close>

theorem Should_Messages_Not_Be_Equal_is_negation:
  "(Should_Messages_Not_Be_Equal sent_msg recv_msg = Inr () \<longleftrightarrow> sent_msg \<notin> set recv_msg) \<and>
   ((\<exists>text. Should_Messages_Not_Be_Equal sent_msg recv_msg = Inl (AssertionError text))
      \<longleftrightarrow> Should_Messages_Be_Equal sent_msg recv_msg = Inr ()) \<and>
   ((\<exists>text. Should_Messages_Be_Equal sent_msg recv_msg = Inl (AssertionError text))
      \<longleftrightarrow> Should_Messages_Not_Be_Equal sent_msg recv_msg = Inr ())"
  by (simp add: Should_Messages_Not_Be_Equal_def Should_Messages_Be_Equal_def)

theorem Should_Messages_Not_Be_Equal_is_negation_witness:
  "Should_Messages_Not_Be_Equal ''x'' [''y'', ''z''] = Inr () \<and>
   Should_Messages_Not_Be_Equal ''x'' [''x'']
     = Inl (AssertionError
         ([apostrophe] @ ''x'' @ [apostrophe] @ '' is found in the received message'')) \<and>
   Should_Messages_Be_Equal ''x'' [''x''] = Inr ()"
  using Should_Messages_Not_Be_Equal_is_negation [of "''x''" "[''y'', ''z'']"]
        Should_Messages_Not_Be_Equal_is_negation [of "''x''" "[''x'']"]
  by (simp add: Should_Messages_Not_Be_Equal_def)

subsection \<open>Get Frame Counts\<close>

lemma count_loop_length: "count_loop frames n = n + int (length frames)"
  by (induction frames arbitrary: n) auto

lemma Get_Frame_count_existing:
  "os_path_exists fs video_file \<Longrightarrow>
     Get_Frame_count fs video_file = Inr (int (length (cv2_VideoCapture fs video_file)))"
  by (simp add: Get_Frame_count_def count_loop_length)

text \<open>
  C8.  The claim: when the video file does not exist, \<open>Get_Frame_count\<close> raises
  a \<open>FileNotFoundError\<close> naming the absent file.  The code does not: the
  f-string that builds the message reads the name \<open>file\<close>, which nothing
  binds, so for every absent path the keyword raises \<open>NameError\<close> and the
  \<open>FileNotFoundError\<close> is never made.
\<close>

theorem Get_Frame_count_missing_file:
  "\<not> os_path_exists fs video_file \<Longrightarrow>
     Get_Frame_count fs video_file
       = Inl (NameError
           (''name '' @ [apostrophe] @ ''file'' @ [apostrophe] @ '' is not defined''))"
  by (simp add: Get_Frame_count_def load_name_def)

theorem Get_Frame_count_missing_file_witness:
  "Get_Frame_count no_files ''missing.mp4''
     = Inl (NameError
         (''name '' @ [apostrophe] @ ''file'' @ [apostrophe] @ '' is not defined''))"
  using Get_Frame_count_missing_file [of no_files "''missing.mp4''"]
  by (simp add: no_files_def)

subsection \<open>Ping\<close>

text \<open>What \<open>ping\<close> hands back, case by case.\<close>

lemma ping_cases:
  "(count_list remote_host CHR ''.'' \<noteq> 3 \<longrightarrow> ping ping3_ping remote_host = Inr (Bool False)) \<and>
   (count_list remote_host CHR ''.'' = 3 \<longrightarrow>
      (ping3_ping remote_host 1 = Returns v \<longrightarrow>
         ping ping3_ping remote_host = Inr (Bool (truthy v))) \<and>
      (ping3_ping remote_host 1 = Raises e \<and> (is_TypeError e \<or> is_OSError e) \<longrightarrow>
         ping ping3_ping remote_host = Inr (Bool False)) \<and>
      (ping3_ping remote_host 1 = Raises (NameError msg) \<longrightarrow>
         ping ping3_ping remote_host = Inr (Str (''module '' @ msg))) \<and>
      (ping3_ping remote_host 1 = Raises e \<and> \<not> is_TypeError e \<and> \<not> is_OSError e
          \<and> (\<forall>msg. e \<noteq> NameError msg) \<longrightarrow>
         ping ping3_ping remote_host = Inl e))"
  by (auto simp add: ping_def split: exn.splits)

lemma ping_replying:
  "ping replying ''127.0.0.1'' = Inr (Bool True) \<and>
   ping replying ''localhost'' = Inr (Bool False)"
  by (simp add: ping_def replying_def)

text \<open>
  C9.  The claim: for every input \<open>ping\<close> returns a boolean, every failure of
  the probe being turned into \<open>False\<close>.  The code does not.  The host
  \<open>1..2.3\<close> holds three dots, so it is probed; the \<open>UnicodeError\<close> that the
  name resolution raises for its empty label is of neither handled class and
  leaves the keyword.  And when the probe raises \<open>NameError\<close>, the keyword
  returns a string.  The docstring of \<open>ping\<close> promises a boolean, \<open>False\<close>
  whenever the host is not reachable.
\<close>

theorem ping_returns_no_bool:
  "ping idna_probe ''1..2.3'' = Inl (OtherError ''UnicodeError'') \<and>
   ping unbound_probe ''127.0.0.1'' = Inr (Str ''module name is not defined'')"
  by (simp add: ping_def idna_probe_def unbound_probe_def)

subsection \<open>Create Send Socket\<close>

text \<open>
  C5, as amended.  Given that the socket can be made: for every \<open>ttl\<close> from 0
  to 127 that the kernel takes, \<open>Create_Send_Socket\<close> returns a socket whose
  multicast TTL option is the one byte \<open>ttl\<close>; for every \<open>ttl\<close> above 127 or
  below -128 it raises \<open>struct.error\<close>, which comes from \<open>struct.pack\<close> whatever
  the kernel would have said, and no value is truncated.  The text of the
  error names the range of a byte, or, for a \<open>ttl\<close> that does not fit 64 bits,
  says that the argument is out of range.
\<close>

theorem Create_Send_Socket_signed_byte:
  "socket_raises k = None \<Longrightarrow>
   (0 \<le> ttl \<and> ttl \<le> 127 \<and> setsockopt_raises k IP_MULTICAST_TTL [char_of ttl] = None \<longrightarrow>
      (\<exists>send_sock. Create_Send_Socket k ttl = Inr send_sock
         \<and> sockopts send_sock IP_MULTICAST_TTL = Some [char_of ttl]
         \<and> map of_char (the (sockopts send_sock IP_MULTICAST_TTL)) = [ttl])) \<and>
   (ttl < -128 \<or> 127 < ttl \<longrightarrow>
      Create_Send_Socket k ttl
        = Inl (struct_error
            (if - (2 ^ 63) \<le> ttl \<and> ttl < 2 ^ 63
             then ''byte format requires -128 <= number <= 127''
             else ''argument out of range'')))"
  by (auto simp add: Create_Send_Socket_def socket_socket_def struct_pack_b_def setsockopt_def)

theorem Create_Send_Socket_signed_byte_witness:
  "(\<exists>send_sock. Create_Send_Socket willing 5 = Inr send_sock
      \<and> map of_char (the (sockopts send_sock IP_MULTICAST_TTL)) = [5 :: int]) \<and>
   Create_Send_Socket willing 300
     = Inl (struct_error ''byte format requires -128 <= number <= 127'')"
  using Create_Send_Socket_signed_byte [of willing 5]
        Create_Send_Socket_signed_byte [of willing 300]
  by (auto simp add: willing_def)

text \<open>
  C5 as stated fails: 200 lies in 0..255 and is refused, and the error for 200
  and for 300 is raised by \<open>struct.pack\<close> under a kernel that refuses no option.
\<close>

theorem Create_Send_Socket_200_counterexample:
  "Create_Send_Socket willing 200
     = Inl (struct_error ''byte format requires -128 <= number <= 127'') \<and>
   Create_Send_Socket willing 300
     = Inl (struct_error ''byte format requires -128 <= number <= 127'')"
  by (simp add: Create_Send_Socket_def socket_socket_def struct_pack_b_def willing_def)

subsection \<open>Floats as lengths of time\<close>

lemma fits_PyTime_small:
  assumes "0 \<le> secs" and "secs \<le> 9 * 10 ^ 9"
  shows "fits_PyTime secs"
proof -
  let ?x = "secs * 10 ^ 9"
  from assms(1) have x0: "0 \<le> ?x" by simp
  then have r: "round_timeout ?x = \<lceil>?x\<rceil>" by (simp only: round_timeout_def if_True)
  from x0 have lo: "0 \<le> \<lceil>?x\<rceil>" by (simp add: zero_le_ceiling)
  from assms(2) have "?x \<le> 9 * 10 ^ 18" by simp
  then have hi: "\<lceil>?x\<rceil> \<le> 9 * 10 ^ 18" by (simp add: ceiling_le_iff)
  from lo hi show ?thesis unfolding fits_PyTime_def r by simp
qed

lemma not_fits_PyTime_large:
  assumes "10 ^ 10 \<le> secs"
  shows "\<not> fits_PyTime secs"
proof -
  let ?x = "secs * 10 ^ 9"
  from assms have x0: "0 \<le> ?x" by simp
  then have r: "round_timeout ?x = \<lceil>?x\<rceil>" by (simp only: round_timeout_def if_True)
  from assms have "(10 ^ 19 :: real) \<le> ?x" by simp
  then have "(10 ^ 19 :: int) \<le> \<lceil>?x\<rceil>" by (simp add: le_ceiling_iff)
  then show ?thesis unfolding fits_PyTime_def r by simp
qed

subsection \<open>Send Multicast Message\<close>

text \<open>One pass of the loop.\<close>

lemma send_loop_step:
  "send_loop env s g p m i d st n w =
     (if is_set env n then Some w
      else if float_gt (clock w - st) d then Some w
      else (case sendto env n s m (g, p) w of
              Inl e \<Rightarrow> Some w
            | Inr w1 \<Rightarrow>
                (case time_sleep env n i w1 of
                   Inl e \<Rightarrow> Some w1
                 | Inr w2 \<Rightarrow> send_loop env s g p m i d st (Suc n) w2)))"
  by (subst send_loop.simps) (simp add: time_time_def encode_def)

lemma sendto_Inr:
  "sendto env n s data address w = Inr w1 \<Longrightarrow>
     w1 = w\<lparr>wire := wire w @ [(data, fst address, snd address)]\<rparr>"
  by (auto simp add: sendto_def split: option.splits if_splits)

lemma time_sleep_Inr: "time_sleep env n i w1 = Inr w2 \<Longrightarrow> wire w2 = wire w1"
  by (auto simp add: time_sleep_def split: sum.splits if_splits)

lemma send_loop_stops:
  "is_set env (k + n) \<Longrightarrow>
     \<exists>w'. send_loop env s g p m i d st k w = Some w'
          \<and> length (wire w') \<le> length (wire w) + n"
proof (induction n arbitrary: k w)
  case 0
  then show ?case by (subst send_loop_step) simp
next
  case (Suc n)
  from Suc.prems have later: "is_set env (Suc k + n)" by simp
  show ?case
  proof (cases "sendto env k s m (g, p) w")
    case (Inl e)
    then show ?thesis by (subst send_loop_step) simp
  next
    case sent: (Inr w1)
    then have w1: "length (wire w1) = Suc (length (wire w))"
      by (auto dest: sendto_Inr)
    show ?thesis
    proof (cases "time_sleep env k i w1")
      case (Inl e)
      with sent w1 show ?thesis by (subst send_loop_step) simp
    next
      case slept: (Inr w2)
      then have w2: "length (wire w2) = Suc (length (wire w))"
        using w1 by (auto dest: time_sleep_Inr)
      from Suc.IH [OF later, of w2]
      obtain w' where "send_loop env s g p m i d st (Suc k) w2 = Some w'"
        "length (wire w') \<le> length (wire w2) + n" by blast
      with sent slept w2 show ?thesis by (subst send_loop_step) simp
    qed
  qed
qed










text \<open>
  An interval that \<^verbatim>\<open>time.sleep\<close> does not take: the first datagram is sent,
  the sleep raises \<^verbatim>\<open>OverflowError\<close>, the thread ends and the keyword returns
  at once.
\<close>

lemma Send_Multicast_Message_sleep_overflow:
  "Send_Multicast_Message punctual fresh_socket default_group 5999 ''hello''
     (Finite (10 ^ 10)) (Finite (2 * 10 ^ 10)) dawn
     = Some \<lparr>clock = 0, wire = [(''hello'', default_group, 5999)]\<rparr>"
proof -
  have "\<not> fits_PyTime (10 ^ 10)" by (rule not_fits_PyTime_large) simp
  then show ?thesis
    by (subst Send_Multicast_Message_def, subst send_loop_step)
       (simp add: time_time_def sendto_def time_sleep_def punctual_def dawn_def)
qed

text \<open>
  C2.  If the stop event is already set when \<open>Send_Multicast_Message\<close> is
  called, the loop sends nothing and the keyword returns with the world
  unchanged, whatever the duration.  The event is tested first in every pass:
  if the \<open>n\<close>-th test (from 0) finds it set, the keyword returns having sent at
  most the \<open>n\<close> datagrams of the passes before that test.
\<close>

theorem Send_Multicast_Message_stop_signal:
  "(is_set env 0 \<longrightarrow>
      Send_Multicast_Message env send_sock multicast_group port message interval duration w = Some w) \<and>
   (is_set env n \<longrightarrow>
      (\<exists>w'. Send_Multicast_Message env send_sock multicast_group port message interval duration w
               = Some w'
           \<and> length (wire w') \<le> length (wire w) + n))"
proof (intro conjI impI)
  assume "is_set env 0"
  then show "Send_Multicast_Message env send_sock multicast_group port message interval duration w
               = Some w"
    unfolding Send_Multicast_Message_def by (subst send_loop_step) simp
next
  assume "is_set env n"
  then have "is_set env (0 + n)" by simp
  from send_loop_stops [OF this]
  show "\<exists>w'. Send_Multicast_Message env send_sock multicast_group port message interval duration w
               = Some w' \<and> length (wire w') \<le> length (wire w) + n"
    unfolding Send_Multicast_Message_def by blast
qed

theorem Send_Multicast_Message_stop_signal_witness:
  "Send_Multicast_Message (stopped_from 0) fresh_socket default_group 5999 ''hello''
     (Finite 1) (Finite 5) dawn
     = Some dawn \<and>
   (\<exists>w'. Send_Multicast_Message (stopped_from 2) fresh_socket default_group 5999 ''hello''
            (Finite 1) (Finite 5) dawn
            = Some w' \<and> length (wire w') \<le> 2)"
  using Send_Multicast_Message_stop_signal
          [where env = "stopped_from 0" and n = 0 and send_sock = fresh_socket
             and multicast_group = default_group and port = 5999 and message = "''hello''"
             and interval = "Finite 1" and duration = "Finite 5" and w = dawn]
        Send_Multicast_Message_stop_signal
          [where env = "stopped_from 2" and n = 2 and send_sock = fresh_socket
             and multicast_group = default_group and port = 5999 and message = "''hello''"
             and interval = "Finite 1" and duration = "Finite 5" and w = dawn]
  by (auto simp add: stopped_from_def dawn_def numeral_2_eq_2)

subsection \<open>Receive Multicast Message\<close>

lemma recv_loop_Raised:
  "net n = Raised e \<Longrightarrow>
     recv_loop net n acc = (if e = socket_timeout then Some (Inr acc) else Some (Inl e))"
  by (subst recv_loop.simps) (simp add: recvfrom_def)

lemma recv_loop_Datagram:
  "net n = Datagram payload \<Longrightarrow>
     recv_loop net n acc =
       (if utf8_valid (map of_char (take 1024 payload))
        then recv_loop net (Suc n) (acc @ [take 1024 payload])
        else Some (Inl UnicodeDecodeError))"
  by (subst recv_loop.simps) (simp add: recvfrom_def decode_def)

lemma recv_loop_prefix:
  "(\<And>j. j < length ds \<Longrightarrow> net (k + j) = Datagram (ds ! j)) \<Longrightarrow>
   (\<And>d. d \<in> set ds \<Longrightarrow> utf8_valid (map of_char (take 1024 d))) \<Longrightarrow>
     recv_loop net k acc = recv_loop net (k + length ds) (acc @ map (take 1024) ds)"
proof (induction ds arbitrary: k acc)
  case Nil
  then show ?case by simp
next
  case (Cons d ds)
  from Cons.prems(1) [of 0] have first: "net k = Datagram d" by simp
  have rest: "net (Suc k + j) = Datagram (ds ! j)" if "j < length ds" for j
    using Cons.prems(1) [of "Suc j"] that by simp
  have ok: "utf8_valid (map of_char (take 1024 d))" using Cons.prems(2) by simp
  have oks: "utf8_valid (map of_char (take 1024 x))" if "x \<in> set ds" for x
    using Cons.prems(2) that by simp
  from Cons.IH [of "Suc k" "acc @ [take 1024 d]", OF rest oks]
  have "recv_loop net (Suc k) (acc @ [take 1024 d])
        = recv_loop net (Suc k + length ds) ((acc @ [take 1024 d]) @ map (take 1024) ds)"
    by blast
  with first ok show ?case by (simp add: recv_loop_Datagram)
qed

lemma utf8_valid_ascii_append:
  "(\<And>b. b \<in> set xs \<Longrightarrow> b < 128) \<Longrightarrow> utf8_valid (xs @ ys) = utf8_valid ys"
  by (induction xs) auto

lemma utf8_valid_ascii: "(\<And>b. b \<in> set xs \<Longrightarrow> b < 128) \<Longrightarrow> utf8_valid xs"
  using utf8_valid_ascii_append [of xs "[]"] by simp

text \<open>
  A timeout that \<^verbatim>\<open>settimeout\<close> refuses: its exception is the keyword's, and
  nothing is received.
\<close>

lemma Receive_Multicast_Message_refused_timeout:
  "settimeout recv_sock secs = Inl e \<Longrightarrow>
     Receive_Multicast_Message net recv_sock secs = Some (recv_sock, Inl e)"
  by (simp add: Receive_Multicast_Message_def)

lemma Receive_Multicast_Message_timeout_overflow:
  "Receive_Multicast_Message net recv_sock (Finite (10 ^ 10))
     = Some (recv_sock, Inl (OverflowError ''timestamp too large to convert to C _PyTime_t''))"
proof -
  have "\<not> fits_PyTime (10 ^ 10)" by (rule not_fits_PyTime_large) simp
  then show ?thesis
    by (simp add: Receive_Multicast_Message_def settimeout_def)
qed

text \<open>
  A run of the keyword over datagrams whose first 1024 bytes decode: the loop
  reaches the receive after them with their texts, in order.
\<close>

lemma Receive_Multicast_Message_run:
  assumes "0 \<le> secs"
    and "fits_PyTime secs"
    and "\<forall>j<length ds. net j = Datagram (ds ! j)"
    and "\<forall>d\<in>set ds. utf8_valid (map of_char (take 1024 d))"
  shows "Receive_Multicast_Message net recv_sock (Finite secs)
           = map_option (Pair (recv_sock\<lparr>timeout := Some secs\<rparr>))
               (recv_loop net (length ds) (map (take 1024) ds))"
proof -
  from assms(3,4) have "recv_loop net 0 [] = recv_loop net (0 + length ds) ([] @ map (take 1024) ds)"
    by (intro recv_loop_prefix) auto
  with assms(1,2) show ?thesis
    by (simp add: Receive_Multicast_Message_def settimeout_def)
qed

text \<open>
  C3.  \<open>Receive_Multicast_Message\<close>, with a finite timeout that is not negative
  and that \<^verbatim>\<open>settimeout\<close> takes (its nanoseconds fit 64 bits), sets the
  timeout on the socket and receives in a loop.  When, after datagrams that
  decode, \<^verbatim>\<open>recvfrom\<close> raises: a \<open>socket.timeout\<close> ends the loop and the list
  gathered so far is returned (the empty list when nothing had arrived); any
  other exception leaves the keyword and no list is returned.
\<close>

theorem Receive_Multicast_Message_timeout_ends_loop:
  assumes "0 \<le> secs"
    and "fits_PyTime secs"
    and "\<forall>j<length ds. net j = Datagram (ds ! j)"
    and "\<forall>d\<in>set ds. utf8_valid (map of_char (take 1024 d))"
    and "net (length ds) = Raised e"
  shows "Receive_Multicast_Message net recv_sock (Finite secs)
           = Some (recv_sock\<lparr>timeout := Some secs\<rparr>,
                   if e = socket_timeout then Inr (map (take 1024) ds) else Inl e)"
  using Receive_Multicast_Message_run [OF assms(1-4), of recv_sock] assms(5)
  by (simp add: recv_loop_Raised)

theorem Receive_Multicast_Message_timeout_ends_loop_witness:
  "Receive_Multicast_Message (delivering [] socket_timeout) fresh_socket (Finite 5)
     = Some (fresh_socket\<lparr>timeout := Some 5\<rparr>, Inr []) \<and>
   Receive_Multicast_Message (delivering [''ping''] (OSError ''Bad file descriptor''))
       fresh_socket (Finite 5)
     = Some (fresh_socket\<lparr>timeout := Some 5\<rparr>, Inl (OSError ''Bad file descriptor''))"
proof -
  have fits: "fits_PyTime 5" by (rule fits_PyTime_small) simp_all
  from fits
    Receive_Multicast_Message_timeout_ends_loop
      [of 5 "[]" "delivering [] socket_timeout" socket_timeout fresh_socket]
    Receive_Multicast_Message_timeout_ends_loop
      [of 5 "[''ping'']" "delivering [''ping''] (OSError ''Bad file descriptor'')"
          "OSError ''Bad file descriptor''" fresh_socket]
  show ?thesis
    by (simp add: delivering_def in_range_def cont_def)
qed

text \<open>
  C4.  Within one call (the timeout as in C3), when the datagrams \<open>ds\<close> arrive
  and then the timeout strikes, the returned list has one entry for each
  datagram, in the order of arrival, equal payloads kept as separate entries:
  entry \<open>j\<close> is what \<open>decode\<close> makes of the bytes that the \<open>j\<close>-th
  \<^verbatim>\<open>recvfrom\<close> returned.
\<close>

theorem Receive_Multicast_Message_arrival_order:
  assumes "0 \<le> secs"
    and "fits_PyTime secs"
    and "\<forall>j<length ds. net j = Datagram (ds ! j)"
    and "\<forall>d\<in>set ds. utf8_valid (map of_char (take 1024 d))"
    and "net (length ds) = Raised socket_timeout"
  shows "Receive_Multicast_Message net recv_sock (Finite secs)
           = Some (recv_sock\<lparr>timeout := Some secs\<rparr>, Inr (map (take 1024) ds))
         \<and> (\<forall>j<length ds. recvfrom net j 1024 = Inr (take 1024 (ds ! j))
                           \<and> decode (take 1024 (ds ! j)) = Inr (map (take 1024) ds ! j))"
proof -
  have "Receive_Multicast_Message net recv_sock (Finite secs)
          = Some (recv_sock\<lparr>timeout := Some secs\<rparr>, Inr (map (take 1024) ds))"
    using Receive_Multicast_Message_run [OF assms(1-4), of recv_sock] assms(5)
    by (simp add: recv_loop_Raised)
  moreover have "\<forall>j<length ds. recvfrom net j 1024 = Inr (take 1024 (ds ! j))
                   \<and> decode (take 1024 (ds ! j)) = Inr (map (take 1024) ds ! j)"
    using assms(3,4) by (simp add: recvfrom_def decode_def)
  ultimately show ?thesis by simp
qed

theorem Receive_Multicast_Message_arrival_order_witness:
  "Receive_Multicast_Message (delivering [''ping'', ''ping'', ''pong''] socket_timeout)
       fresh_socket (Finite 5)
     = Some (fresh_socket\<lparr>timeout := Some 5\<rparr>, Inr [''ping'', ''ping'', ''pong''])"
proof -
  let ?ds = "[''ping'', ''ping'', ''pong'']"
  have a: "\<forall>j<length ?ds. delivering ?ds socket_timeout j = Datagram (?ds ! j)"
    by (simp add: delivering_def)
  have b: "\<forall>d\<in>set ?ds. utf8_valid (map of_char (take 1024 d))"
    by simp
  have c: "delivering ?ds socket_timeout (length ?ds) = Raised socket_timeout"
    by (simp add: delivering_def)
  have d: "(0::real) \<le> 5" by simp
  have fits: "fits_PyTime 5" by (rule fits_PyTime_small) simp_all
  from Receive_Multicast_Message_arrival_order [OF d fits a b c, of fresh_socket]
  show ?thesis by simp
qed

text \<open>
  C10, as amended.  \<^verbatim>\<open>recvfrom\<close> returns at most 1024 bytes of a datagram.
  In a call whose timeout \<^verbatim>\<open>settimeout\<close> takes, for a datagram of more than
  1024 bytes only the first 1024 are decoded: when they are well-formed UTF-8
  they are appended as one entry, which is shorter than the payload and so
  differs from it; when the cut leaves them ill-formed, \<open>UnicodeDecodeError\<close>
  leaves the keyword and no list is returned.
\<close>

theorem Receive_Multicast_Message_truncates:
  assumes "0 \<le> secs"
    and "fits_PyTime secs"
    and "\<forall>j<length ds. net j = Datagram (ds ! j)"
    and "\<forall>d\<in>set ds. utf8_valid (map of_char (take 1024 d))"
    and "net (length ds) = Datagram payload"
    and "1024 < length payload"
    and "net (Suc (length ds)) = Raised socket_timeout"
  shows "recvfrom net (length ds) 1024 = Inr (take 1024 payload)
         \<and> length (take 1024 payload) = 1024
         \<and> take 1024 payload \<noteq> payload
         \<and> Receive_Multicast_Message net recv_sock (Finite secs)
             = Some (recv_sock\<lparr>timeout := Some secs\<rparr>,
                     if utf8_valid (map of_char (take 1024 payload))
                     then Inr (map (take 1024) ds @ [take 1024 payload])
                     else Inl UnicodeDecodeError)"
proof -
  from assms(6) have len: "length (take 1024 payload) = 1024" by simp
  with assms(6) have ne: "take 1024 payload \<noteq> payload" by (metis less_irrefl)
  have "Receive_Multicast_Message net recv_sock (Finite secs)
          = Some (recv_sock\<lparr>timeout := Some secs\<rparr>,
                  if utf8_valid (map of_char (take 1024 payload))
                  then Inr (map (take 1024) ds @ [take 1024 payload])
                  else Inl UnicodeDecodeError)"
    using Receive_Multicast_Message_run [OF assms(1-4), of recv_sock] assms(5,7)
    by (simp add: recv_loop_Datagram recv_loop_Raised)
  with len ne assms(5) show ?thesis by (simp add: recvfrom_def)
qed

theorem Receive_Multicast_Message_truncates_witness:
  "Receive_Multicast_Message (delivering [replicate 1025 (CHR ''a'')] socket_timeout)
       fresh_socket (Finite 5)
     = Some (fresh_socket\<lparr>timeout := Some 5\<rparr>, Inr [replicate 1024 (CHR ''a'')])"
proof -
  let ?net = "delivering [replicate 1025 (CHR ''a'')] socket_timeout"
  have ok: "utf8_valid (map of_char (take 1024 (replicate 1025 (CHR ''a''))))"
    by (rule utf8_valid_ascii) auto
  have fits: "fits_PyTime 5" by (rule fits_PyTime_small) simp_all
  have "\<forall>j<length ([]::bytes list). ?net j = Datagram ([] ! j)" by simp
  moreover have "\<forall>d\<in>set ([]::bytes list). utf8_valid (map of_char (take 1024 d))" by simp
  moreover have "?net (length ([]::bytes list)) = Datagram (replicate 1025 (CHR ''a''))"
    by (simp add: delivering_def)
  moreover have "1024 < length (replicate 1025 (CHR ''a''))" by simp
  moreover have "?net (Suc (length ([]::bytes list))) = Raised socket_timeout"
    by (simp add: delivering_def)
  ultimately show ?thesis
    using Receive_Multicast_Message_truncates
            [of 5 "[]" ?net "replicate 1025 (CHR ''a'')" fresh_socket] ok fits
    by simp
qed

text \<open>
  C10 as stated fails for a payload of 1025 bytes whose last character is
  encoded in the bytes 1024 and 1025: the first 1024 bytes do not decode, and
  nothing is appended.
\<close>

theorem Receive_Multicast_Message_split_character_counterexample:
  "1024 < length long_payload \<and>
   Receive_Multicast_Message (delivering [long_payload] socket_timeout) fresh_socket (Finite 5)
     = Some (fresh_socket\<lparr>timeout := Some 5\<rparr>, Inl UnicodeDecodeError)"
proof -
  have fits: "fits_PyTime 5" by (rule fits_PyTime_small) simp_all
  have "utf8_valid (replicate 1023 (of_char (CHR ''a'')) @ [0xC3]) = utf8_valid [0xC3]"
    by (rule utf8_valid_ascii_append) simp
  then have bad: "\<not> utf8_valid (map of_char (take 1024 long_payload))"
    by (simp add: in_range_def long_payload_def)
  have "delivering [long_payload] socket_timeout 0 = Datagram long_payload"
    by (simp add: delivering_def)
  from recv_loop_Datagram [of "delivering [long_payload] socket_timeout" 0 long_payload "[]", OF this] bad
  have "recv_loop (delivering [long_payload] socket_timeout) 0 [] = Some (Inl UnicodeDecodeError)"
    by simp
  with fits show ?thesis
    by (simp add: Receive_Multicast_Message_def settimeout_def long_payload_def)
qed

end
